theory Spec2Isabelle
  imports Main
begin

section \<open>MovieNightBot: the action dispatch pipeline\<close>

text \<open>
  A shallow embedding of \<^verbatim>\<open>movienightbot/actions/__init__.py\<close> (the class
  \<^verbatim>\<open>BaseAction\<close>) and of \<^verbatim>\<open>movienightbot/actions/user_vote_count.py\<close>.
  Coroutines are run to completion one after the other, so an \<^verbatim>\<open>await\<close> is an
  ordinary call. Every function that touches the chat platform, the database or the
  logger takes the world and returns the new one; a raised exception is the value
  \<open>Inl e\<close>, a normal return is \<open>Inr v\<close>.
\<close>

subsection \<open>Python values, exceptions and the chat platform\<close>

text \<open>
  The exceptions the code can meet. \<^verbatim>\<open>discord.Forbidden\<close> carries the platform's
  error code (\<^verbatim>\<open>e.code\<close>); all of them are subclasses of \<^verbatim>\<open>Exception\<close>.
\<close>

datatype exn =
    Forbidden int
  | DoesNotExist
  | AttributeError
  | ValueError
  | OtherException string

text \<open>
  Objects with a \<^verbatim>\<open>send\<close> method, by identity: the object \<^verbatim>\<open>msg.channel\<close>, the
  object \<^verbatim>\<open>msg.author\<close>, or any other channel or user object. The test
  \<^verbatim>\<open>target is msg.author\<close> of the source is equality on this type.
\<close>

datatype sendable = MsgChannel | MsgAuthor | OtherSendable nat

text \<open>The Python values an action body can return (dictionaries keep their string keys).\<close>

datatype pyval =
    PNone
  | PInt int
  | PStr string
  | PTuple "pyval list"
  | PDict "(string \<times> pyval) list"
  | PSendable sendable
  | PMessageRef nat

text \<open>
  The three ways the source calls \<^verbatim>\<open>send\<close>: \<^verbatim>\<open>send(args)\<close> with a string,
  \<^verbatim>\<open>send(*args)\<close> with a tuple, \<^verbatim>\<open>send(**args)\<close> with a dictionary.
\<close>

datatype send_call =
    SendStr string
  | SendPos "pyval list"
  | SendKw "(string \<times> pyval) list"

datatype log_entry =
    DebugNonDM string
  | DebugWrongChannel string string nat
  | DebugNotAdmin string
  | LogError exn
  | LogInfoRunning string string string
  | LogErrorNotTuple

record server_settings =
  channel :: nat
  admin_role :: string
  message_timeout :: int
  num_votes_per_user :: int

record guild_info =
  guild_id :: nat
  guild_name :: string

record author_info =
  author_name :: string
  administrator :: bool
  roles :: "string list"

text \<open>
  A \<^verbatim>\<open>discord.message\<close>, with the attributes the code reads. \<open>guild\<close> is
  \<open>None\<close> for a direct message.
\<close>

record message =
  content :: string
  guild :: "guild_info option"
  channel_id :: nat
  channel_name :: string
  author :: author_info

text \<open>
  The world outside the dispatch: the rows of the server table by guild id, the answer of
  the platform to a \<^verbatim>\<open>send\<close> (the exception it raises, if any), the messages
  delivered so far, the log, and the deletions handed to \<^verbatim>\<open>cleanup_messages\<close>.
\<close>

record world =
  db :: "nat \<rightharpoonup> server_settings"
  send_fault :: "sendable \<Rightarrow> send_call \<Rightarrow> exn option"
  outbox :: "(sendable \<times> send_call) list"
  logged :: "log_entry list"
  cleanups :: "(pyval \<times> int) list"

text \<open>
  Modelled from the spec: the chat client's \<^verbatim>\<open>send(payload)\<close> operation of a channel
  or user object, which is not part of the repository. It either delivers the message or
  raises what the platform answers (for instance \<^verbatim>\<open>Forbidden\<close> with code 50007,
  "cannot message this user").
\<close>

definition send :: "sendable \<Rightarrow> send_call \<Rightarrow> world \<Rightarrow> (exn + unit) \<times> world" where
  "send t c w =
     (case send_fault w t c of
        Some e \<Rightarrow> (Inl e, w)
      | None \<Rightarrow> (Inr (), w\<lparr>outbox := outbox w @ [(t, c)]\<rparr>))"

text \<open>Calling \<^verbatim>\<open>target.send\<close> on a value without that attribute raises.\<close>

definition send_to :: "pyval \<Rightarrow> send_call \<Rightarrow> world \<Rightarrow> (exn + unit) \<times> world" where
  "send_to target c w =
     (case target of
        PSendable t \<Rightarrow> send t c w
      | _ \<Rightarrow> (Inl AttributeError, w))"

text \<open>
  Modelled from the spec: \<^verbatim>\<open>ServerController().get_by_id\<close> of the persistence layer
  (\<^verbatim>\<open>movienightbot/db/controllers.py\<close> is not among the sources): it "may fail if no
  record exists".
\<close>

definition get_by_id :: "nat \<Rightarrow> world \<Rightarrow> exn + server_settings" where
  "get_by_id gid w = (case db w gid of None \<Rightarrow> Inl DoesNotExist | Some s \<Rightarrow> Inr s)"

text \<open>
  The expression \<^verbatim>\<open>ServerController().get_by_id(msg.guild.id)\<close>: reading \<^verbatim>\<open>.id\<close>
  of \<^verbatim>\<open>None\<close> raises before the controller is asked.
\<close>

definition load_settings :: "message \<Rightarrow> world \<Rightarrow> exn + server_settings" where
  "load_settings msg w =
     (case guild msg of
        None \<Rightarrow> Inl AttributeError
      | Some g \<Rightarrow> get_by_id (guild_id g) w)"

text \<open>
  Modelled from the spec: \<^verbatim>\<open>cleanup_messages\<close> of \<^verbatim>\<open>movienightbot/util.py\<close>
  (not among the sources) "schedules their deletion after the timeout elapses
  (fire-and-forget; deletion failures are swallowed and logged, never surfaced)".
\<close>

definition cleanup_messages :: "pyval \<Rightarrow> int \<Rightarrow> world \<Rightarrow> world" where
  "cleanup_messages msgs sec_delay w = w\<lparr>cleanups := cleanups w @ [(msgs, sec_delay)]\<rparr>"

subsection \<open>Python string operations\<close>

text \<open>
  Strings are ASCII text. \<open>is_space\<close> is \<^verbatim>\<open>str.isspace\<close> on ASCII: tab, line feed,
  vertical tab, form feed, carriage return, the four separators 0x1C..0x1F and space.
\<close>

definition is_space :: "char \<Rightarrow> bool" where
  "is_space c = (let n = (of_char c :: nat) in (9 \<le> n \<and> n \<le> 13) \<or> (28 \<le> n \<and> n \<le> 32))"

text \<open>\<^verbatim>\<open>s.strip()\<close>\<close>

definition strip :: "string \<Rightarrow> string" where
  "strip s = rev (dropWhile is_space (rev (dropWhile is_space s)))"

text \<open>
  \<^verbatim>\<open>s.split(sep, maxsplit)\<close> for a one-character separator: every occurrence
  separates, empty fields are kept, and at most \<open>maxsplit\<close> splits are made (a negative
  \<open>maxsplit\<close> is no limit). The second argument collects the current field, reversed.
\<close>

fun split_sep :: "char \<Rightarrow> int \<Rightarrow> string \<Rightarrow> string \<Rightarrow> string list" where
  "split_sep sep n acc [] = [rev acc]"
| "split_sep sep n acc (c # cs) =
     (if c = sep \<and> n \<noteq> 0 then rev acc # split_sep sep (n - 1) [] cs
      else split_sep sep n (c # acc) cs)"

text \<open>\<^verbatim>\<open>s.split()\<close>: fields between runs of whitespace, no empty field.\<close>

fun split_ws :: "string \<Rightarrow> string \<Rightarrow> string list" where
  "split_ws acc [] = (if acc = [] then [] else [rev acc])"
| "split_ws acc (c # cs) =
     (if is_space c then (if acc = [] then split_ws [] cs else rev acc # split_ws [] cs)
      else split_ws (c # acc) cs)"

text \<open>\<^verbatim>\<open>sep.join(xs)\<close>\<close>

fun join :: "string \<Rightarrow> string list \<Rightarrow> string" where
  "join sep [] = []"
| "join sep [x] = x"
| "join sep (x # y # ys) = x @ sep @ join sep (y # ys)"

text \<open>
  \<^verbatim>\<open>BaseAction.get_message_data\<close>. The result is a string when \<open>data_parts\<close> is 1 and
  a tuple of strings otherwise.
\<close>

definition get_message_data :: "message \<Rightarrow> int \<Rightarrow> pyval" where
  "get_message_data msg data_parts =
     (let data = tl (split_sep (CHR '' '') data_parts [] (strip (content msg)));
          data = map (\<lambda>s. join '' '' (split_ws [] s)) data
      in if data_parts = 1 then (case data of [] \<Rightarrow> PStr [] | d # _ \<Rightarrow> PStr d)
         else PTuple (map PStr data))"

subsection \<open>The action base class\<close>

text \<open>
  A concrete action: the class attributes \<^verbatim>\<open>action_name\<close>, \<^verbatim>\<open>admin\<close>,
  \<^verbatim>\<open>guild_only\<close> and the coroutine \<^verbatim>\<open>action\<close>, which may itself send messages
  and write to the database before it returns or raises.
\<close>

record BaseAction =
  action_name :: string
  admin :: bool
  guild_only :: bool
  action :: "message \<Rightarrow> world \<Rightarrow> (exn + pyval) \<times> world"

text \<open>\<^verbatim>\<open>BaseAction._check_proceed\<close> (lines 34 to 54).\<close>

definition check_proceed :: "BaseAction \<Rightarrow> message \<Rightarrow> world \<Rightarrow> (exn + bool) \<times> world" where
  "check_proceed a msg w =
     (if guild_only a \<and> guild msg = None then
        (case send MsgAuthor (SendStr ''You can't do this command from a DM!'')
                (w\<lparr>logged := logged w @ [DebugNonDM (author_name (author msg))]\<rparr>) of
           (Inl e, w1) \<Rightarrow> (Inl e, w1)
         | (Inr _, w1) \<Rightarrow> (Inr False, w1))
      else
        (case load_settings msg w of
           Inl e \<Rightarrow> (Inl e, w)
         | Inr server_settings \<Rightarrow>
             if channel_id msg \<noteq> channel server_settings then
               (Inr False,
                w\<lparr>logged := logged w @
                   [DebugWrongChannel (author_name (author msg)) (channel_name msg)
                      (channel server_settings)]\<rparr>)
             else if \<not> administrator (author msg) \<and>
                     (admin a \<and> admin_role server_settings \<notin> set (roles (author msg))) then
               (case send MsgChannel (SendStr ''Hey now, you're not an admin on this server!'')
                       (w\<lparr>logged := logged w @ [DebugNotAdmin (author_name (author msg))]\<rparr>) of
                  (Inl e, w1) \<Rightarrow> (Inl e, w1)
                | (Inr _, w1) \<Rightarrow> (Inr False, w1))
             else (Inr True, w)))"

definition error_message :: string where
  "error_message =
     ''OOPSIE WOOPSIE!! UwU We made a fucky wucky!! A wittle fucko boingo! The code '' @
     ''monkeys at our headquarters are working VEWY HAWD to fix this!''"

text \<open>
  Lines 61 to 66 of \<^verbatim>\<open>BaseAction.__call__\<close>: the \<^verbatim>\<open>try\<close> around the check.
  \<open>Inr False\<close> is the \<^verbatim>\<open>return\<close> of line 63. The \<^verbatim>\<open>except\<close> clause logs, sends the
  generic message and has no \<^verbatim>\<open>return\<close>: control goes on to line 68, which is
  \<open>Inr True\<close> here. What the \<^verbatim>\<open>send\<close> of line 66 raises is not caught.
\<close>

definition gate :: "BaseAction \<Rightarrow> message \<Rightarrow> world \<Rightarrow> (exn + bool) \<times> world" where
  "gate a msg w =
     (case check_proceed a msg w of
        (Inr ok, w1) \<Rightarrow> (Inr ok, w1)
      | (Inl e, w1) \<Rightarrow>
          (case send MsgChannel (SendStr error_message) (w1\<lparr>logged := logged w1 @ [LogError e]\<rparr>) of
             (Inl e', w2) \<Rightarrow> (Inl e', w2)
           | (Inr _, w2) \<Rightarrow> (Inr True, w2)))"

text \<open>
  Lines 90 to 95 (and again 101 to 106): the call of \<^verbatim>\<open>send\<close> chosen by the type of
  \<^verbatim>\<open>args\<close>: \<^verbatim>\<open>send(args)\<close> for a string, \<^verbatim>\<open>send(*args)\<close> for a tuple,
  \<^verbatim>\<open>send(**args)\<close> for a dictionary. A value of any other type is sent nowhere.
\<close>

definition send_args :: "pyval \<Rightarrow> send_call option" where
  "send_args args =
     (case args of
        PStr s \<Rightarrow> Some (SendStr s)
      | PTuple xs \<Rightarrow> Some (SendPos xs)
      | PDict kv \<Rightarrow> Some (SendKw kv)
      | _ \<Rightarrow> None)"

definition deliver :: "pyval \<Rightarrow> pyval \<Rightarrow> world \<Rightarrow> (exn + unit) \<times> world" where
  "deliver target args w =
     (case send_args args of
        Some c \<Rightarrow> send_to target c w
      | None \<Rightarrow> (Inr (), w))"

text \<open>
  Lines 82 to 88: with a positive \<^verbatim>\<open>message_timeout\<close> and a dictionary payload that
  has the key \<^verbatim>\<open>"also_delete"\<close>, the listed messages are handed to
  \<^verbatim>\<open>cleanup_messages\<close>.
\<close>

definition also_delete :: "server_settings \<Rightarrow> pyval \<Rightarrow> world \<Rightarrow> world" where
  "also_delete server_settings args w =
     (case args of
        PDict kv \<Rightarrow>
          (case map_of kv ''also_delete'' of
             Some msgs \<Rightarrow>
               if message_timeout server_settings > 0
               then cleanup_messages msgs (message_timeout server_settings) w
               else w
           | None \<Rightarrow> w)
      | _ \<Rightarrow> w)"

text \<open>
  The \<^verbatim>\<open>try\<close> block of lines 77 to 97. An exception leaves it together with the
  values the local variables \<^verbatim>\<open>target\<close> and \<^verbatim>\<open>args\<close> have at that moment
  (both \<^verbatim>\<open>None\<close> until line 79 assigns them).
\<close>

definition run_action ::
  "BaseAction \<Rightarrow> message \<Rightarrow> server_settings \<Rightarrow> world \<Rightarrow> ((exn \<times> pyval \<times> pyval) + unit) \<times> world" where
  "run_action a msg server_settings w =
     (case action a msg w of
        (Inl e, w1) \<Rightarrow> (Inl (e, PNone, PNone), w1)
      | (Inr rt, w1) \<Rightarrow>
          (case rt of
             PTuple [target, args] \<Rightarrow>
               (case deliver target args (also_delete server_settings args w1) of
                  (Inl e, w2) \<Rightarrow> (Inl (e, target, args), w2)
                | (Inr _, w2) \<Rightarrow> (Inr (), w2))
           | _ \<Rightarrow> (Inr (), w1\<lparr>logged := logged w1 @ [LogErrorNotTuple]\<rparr>)))"

text \<open>
  The two \<^verbatim>\<open>except\<close> clauses of lines 98 to 115. What a \<^verbatim>\<open>send\<close> inside them
  raises leaves \<^verbatim>\<open>__call__\<close>.
\<close>

definition on_error :: "message \<Rightarrow> exn \<Rightarrow> pyval \<Rightarrow> pyval \<Rightarrow> world \<Rightarrow> (exn + unit) \<times> world" where
  "on_error msg e target args w =
     (case e of
        Forbidden code \<Rightarrow>
          if code = 50007 then
            (if target = PSendable MsgAuthor then deliver (PSendable MsgChannel) args w
             else send MsgChannel
                    (SendStr (''I can't DM you '' @ author_name (author msg) @ ''!'')) w)
          else send MsgChannel (SendStr error_message) (w\<lparr>logged := logged w @ [LogError e]\<rparr>)
      | _ \<Rightarrow> send MsgChannel (SendStr error_message) (w\<lparr>logged := logged w @ [LogError e]\<rparr>))"

text \<open>Lines 69 to 72: the invocation is logged before the action runs.\<close>

definition log_running :: "BaseAction \<Rightarrow> message \<Rightarrow> world \<Rightarrow> world" where
  "log_running a msg w =
     w\<lparr>logged := logged w @
        [LogInfoRunning (action_name a)
           (case guild msg of Some g \<Rightarrow> guild_name g | None \<Rightarrow> ''DM'')
           (author_name (author msg))]\<rparr>"

text \<open>
  Lines 68 to 115: the settings are loaded again, outside of any \<^verbatim>\<open>try\<close>, the
  invocation is logged, and the action runs inside the \<^verbatim>\<open>try\<close>.
\<close>

definition execute :: "BaseAction \<Rightarrow> message \<Rightarrow> world \<Rightarrow> (exn + unit) \<times> world" where
  "execute a msg w =
     (case load_settings msg w of
        Inl e \<Rightarrow> (Inl e, w)
      | Inr server_settings \<Rightarrow>
          (case run_action a msg server_settings (log_running a msg w) of
             (Inr _, w1) \<Rightarrow> (Inr (), w1)
           | (Inl (e, target, args), w1) \<Rightarrow> on_error msg e target args w1))"

text \<open>
  \<^verbatim>\<open>BaseAction.__call__\<close>, the dispatch entry point. \<open>Inl e\<close> is an exception that
  leaves it.
\<close>

definition call :: "BaseAction \<Rightarrow> message \<Rightarrow> world \<Rightarrow> (exn + unit) \<times> world" where
  "call a msg w =
     (case gate a msg w of
        (Inl e, w1) \<Rightarrow> (Inl e, w1)
      | (Inr False, w1) \<Rightarrow> (Inr (), w1)
      | (Inr True, w1) \<Rightarrow> execute a msg w1)"

subsection \<open>The action \<^verbatim>\<open>user_vote_count\<close>\<close>

text \<open>
  \<^verbatim>\<open>int(s)\<close> for a string: surrounding whitespace is dropped, a sign may come first,
  then decimal digits, where single underscores may stand between two digits. Anything
  else is a \<^verbatim>\<open>ValueError\<close>. \<open>digits_val\<close> reads the digits; its flag says that the
  previous character was a digit. The bound that recent interpreters put on the number of
  digits is left out.
\<close>

definition is_digit :: "char \<Rightarrow> bool" where
  "is_digit c = (let n = (of_char c :: nat) in 48 \<le> n \<and> n \<le> 57)"

definition digit_val :: "char \<Rightarrow> int" where
  "digit_val c = int (of_char c) - 48"

fun digits_val :: "int \<Rightarrow> bool \<Rightarrow> string \<Rightarrow> int option" where
  "digits_val acc prev [] = (if prev then Some acc else None)"
| "digits_val acc prev (c # cs) =
     (if is_digit c then digits_val (acc * 10 + digit_val c) True cs
      else if c = CHR ''_'' \<and> prev then digits_val acc False cs
      else None)"

definition py_int :: "string \<Rightarrow> exn + int" where
  "py_int s =
     (case (case strip s of
              c # cs \<Rightarrow>
                if c = CHR ''-'' then map_option uminus (digits_val 0 False cs)
                else if c = CHR ''+'' then digits_val 0 False cs
                else digits_val 0 False (c # cs)
            | [] \<Rightarrow> None) of
        None \<Rightarrow> Inl ValueError
      | Some n \<Rightarrow> Inr n)"

text \<open>\<^verbatim>\<open>str(n)\<close> for an integer, as the f-strings of the action format it.\<close>

fun show_nat :: "nat \<Rightarrow> string" where
  "show_nat n =
     (if n < 10 then [''0123456789'' ! n]
      else show_nat (n div 10) @ [''0123456789'' ! (n mod 10)])"

definition show_int :: "int \<Rightarrow> string" where
  "show_int i = (if i < 0 then CHR ''-'' # show_nat (nat (- i)) else show_nat (nat i))"

text \<open>
  \<^verbatim>\<open>UserVoteCountAction.action\<close>. \<^verbatim>\<open>get_message_data\<close> is called with its default of
  one data part and so returns a string. The transaction commits when its block is left by
  \<^verbatim>\<open>return\<close>; the only write is the \<^verbatim>\<open>update\<close> of line 26.

  Modelled from the spec: \<^verbatim>\<open>controller.update(server_row)\<close> of the persistence
  layer, "updateServerPolicy(policy)", stores the row under its guild id.
\<close>

definition user_vote_count_action :: "message \<Rightarrow> world \<Rightarrow> (exn + pyval) \<times> world" where
  "user_vote_count_action msg w =
     (case get_message_data msg 1 of
        PStr s \<Rightarrow>
          (case py_int s of
             Inl e \<Rightarrow> (Inl e, w)
           | Inr n \<Rightarrow>
               if n < 1 then
                 (Inr (PTuple [PSendable MsgChannel,
                    PStr ''Failed: Number of votes per user must be greater than zero.'']), w)
               else
                 (case guild msg of
                    None \<Rightarrow> (Inl AttributeError, w)
                  | Some g \<Rightarrow>
                      (case get_by_id (guild_id g) w of
                         Inl e \<Rightarrow> (Inl e, w)
                       | Inr server_row \<Rightarrow>
                           if n < num_votes_per_user server_row then
                             (Inr (PTuple [PSendable MsgChannel,
                                PStr (''Failed to update: Number of votes per user must be >= '' @
                                      show_int (num_votes_per_user server_row))]), w)
                           else
                             (Inr (PTuple [PSendable MsgChannel,
                                PStr (''Number of votes per user updated to '' @ show_int n)]),
                              w\<lparr>db := (db w)(guild_id g \<mapsto>
                                   server_row\<lparr>num_votes_per_user := n\<rparr>)\<rparr>))))
      | _ \<Rightarrow> (Inl (OtherException ''TypeError''), w))"

definition UserVoteCountAction :: BaseAction where
  "UserVoteCountAction =
     \<lparr>action_name = ''user_vote_count'', admin = True, guild_only = True,
      action = user_vote_count_action\<rparr>"

subsection \<open>A concrete server\<close>

text \<open>
  One guild with its row in the server table, a platform that delivers everything, and
  messages from a member without and with the administrator flag. The theorems below are
  run on them.
\<close>

definition movie_settings :: server_settings where
  "movie_settings =
     \<lparr>channel = 42, admin_role = ''Movie Master'', message_timeout = 10,
      num_votes_per_user = 3\<rparr>"

definition movie_world :: world where
  "movie_world =
     \<lparr>db = [7 \<mapsto> movie_settings], send_fault = (\<lambda>t c. None), outbox = [], logged = [],
      cleanups = []\<rparr>"

definition member_msg :: "string \<Rightarrow> message" where
  "member_msg text =
     \<lparr>content = text, guild = Some \<lparr>guild_id = 7, guild_name = ''Movie Club''\<rparr>,
      channel_id = 42, channel_name = ''movie-night'',
      author = \<lparr>author_name = ''fae'', administrator = False, roles = [''viewer'']\<rparr>\<rparr>"

definition admin_msg :: "string \<Rightarrow> message" where
  "admin_msg text =
     (member_msg text)\<lparr>author :=
        \<lparr>author_name = ''owner'', administrator = True, roles = []\<rparr>\<rparr>"

definition dm_msg :: "string \<Rightarrow> message" where
  "dm_msg text = (member_msg text)\<lparr>guild := None, channel_id := 5, channel_name := ''dm''\<rparr>"

text \<open>An action for everybody whose body returns the value \<open>rt\<close> and does nothing else.\<close>

definition ReturnAction :: "pyval \<Rightarrow> BaseAction" where
  "ReturnAction rt =
     \<lparr>action_name = ''reply'', admin = False, guild_only = True,
      action = (\<lambda>msg w. (Inr rt, w))\<rparr>"

text \<open>
  A platform on which no user accepts a direct message: a send to anything but the channel
  is refused with error code 50007.
\<close>

definition no_dm_world :: world where
  "no_dm_world =
     movie_world\<lparr>send_fault :=
        (\<lambda>t c. if t = MsgChannel then None else Some (Forbidden 50007))\<rparr>"

text \<open>
  A platform on which the first answer to the member, the refusal of the admin check, is
  lost (the request fails), and everything else is delivered.
\<close>

definition lossy_world :: world where
  "lossy_world =
     movie_world\<lparr>send_fault :=
        (\<lambda>t c. if c = SendStr ''Hey now, you're not an admin on this server!''
               then Some (OtherException ''HTTPException'') else None)\<rparr>"

text \<open>
  A platform on which the bot may not write to the channel: a send to the channel is
  refused with error code 50013, missing permissions.
\<close>

definition muted_world :: world where
  "muted_world =
     movie_world\<lparr>send_fault :=
        (\<lambda>t c. if t = MsgChannel then Some (Forbidden 50013) else None)\<rparr>"

section \<open>Properties\<close>

subsection \<open>Selectors of the concrete server\<close>

lemma member_msg_sel:
  "content (member_msg t) = t"
  "guild (member_msg t) = Some \<lparr>guild_id = 7, guild_name = ''Movie Club''\<rparr>"
  "channel_id (member_msg t) = 42"
  "channel_name (member_msg t) = ''movie-night''"
  "author (member_msg t) = \<lparr>author_name = ''fae'', administrator = False, roles = [''viewer'']\<rparr>"
  by (simp_all add: member_msg_def)

lemma admin_msg_sel:
  "content (admin_msg t) = t"
  "guild (admin_msg t) = Some \<lparr>guild_id = 7, guild_name = ''Movie Club''\<rparr>"
  "channel_id (admin_msg t) = 42"
  "channel_name (admin_msg t) = ''movie-night''"
  "author (admin_msg t) = \<lparr>author_name = ''owner'', administrator = True, roles = []\<rparr>"
  by (simp_all add: admin_msg_def member_msg_def)

lemma dm_msg_sel:
  "content (dm_msg t) = t"
  "guild (dm_msg t) = None"
  "author (dm_msg t) = \<lparr>author_name = ''fae'', administrator = False, roles = [''viewer'']\<rparr>"
  by (simp_all add: dm_msg_def member_msg_def)

lemma movie_world_sel:
  "db movie_world 7 = Some movie_settings"
  "send_fault movie_world t c = None"
  "outbox movie_world = []"
  "logged movie_world = []"
  by (simp_all add: movie_world_def)

subsection \<open>Frame and gate lemmas\<close>

text \<open>
  When the check answers \<open>True\<close> it has sent and logged nothing, and the settings it
  loaded are there for line 68 as well.
\<close>

lemma check_proceed_passed:
  assumes "fst (check_proceed a msg w) = Inr True"
  shows "check_proceed a msg w = (Inr True, w)" and "\<exists>st. load_settings msg w = Inr st"
  using assms
  by (auto simp: check_proceed_def send_def split: if_splits sum.splits option.splits prod.splits)

lemma gate_passed:
  assumes "fst (check_proceed a msg w) = Inr True"
  shows "gate a msg w = (Inr True, w)"
  using check_proceed_passed(1)[OF assms] by (simp add: gate_def)

lemma call_passed:
  assumes "fst (check_proceed a msg w) = Inr True"
  shows "\<exists>st. load_settings msg w = Inr st \<and> call a msg w =
     (case run_action a msg st (log_running a msg w) of
             (Inr _, w1) \<Rightarrow> (Inr (), w1)
           | (Inl (e, target, args), w1) \<Rightarrow> on_error msg e target args w1)"
  using check_proceed_passed(2)[OF assms] gate_passed[OF assms]
  by (auto simp: call_def execute_def)

lemma also_delete_frame [simp]:
  "outbox (also_delete st args w) = outbox w"
  "send_fault (also_delete st args w) = send_fault w"
  "db (also_delete st args w) = db w"
  "logged (also_delete st args w) = logged w"
  by (auto simp: also_delete_def cleanup_messages_def split: pyval.splits option.splits)

lemma split_sep_no_sep:
  "sep \<notin> set s \<Longrightarrow> split_sep sep n acc s = [rev acc @ s]"
  by (induction s arbitrary: acc) auto

lemma check_member_everybody:
  "check_proceed (ReturnAction rt) (member_msg t) (movie_world\<lparr>send_fault := f\<rparr>) = (Inr True, movie_world\<lparr>send_fault := f\<rparr>)"
  by (simp add: check_proceed_def ReturnAction_def load_settings_def get_by_id_def
        member_msg_sel movie_world_def movie_settings_def)

lemma check_admin_vote_count:
  "check_proceed UserVoteCountAction (admin_msg t) movie_world = (Inr True, movie_world)"
  by (simp add: check_proceed_def UserVoteCountAction_def load_settings_def get_by_id_def
        admin_msg_sel movie_world_def movie_settings_def)

lemma vote_count_request_5: "user_vote_count_action (member_msg ''m!user_vote_count 5'') w =
   (case db w 7 of None \<Rightarrow> (Inl DoesNotExist, w) | Some row \<Rightarrow>
      if 5 < num_votes_per_user row then (Inr (PTuple [PSendable MsgChannel,
                                PStr (''Failed to update: Number of votes per user must be >= '' @
                                      show_int (num_votes_per_user row))]), w)
      else (Inr (PTuple [PSendable MsgChannel, PStr ''Number of votes per user updated to 5'']),
          w\<lparr>db := (db w)(7 \<mapsto> row\<lparr>num_votes_per_user := 5\<rparr>)\<rparr>))"
  by (simp add: user_vote_count_action_def get_message_data_def member_msg_def strip_def is_space_def
       py_int_def is_digit_def digit_val_def show_int_def get_by_id_def split: option.splits)

subsection \<open>The permission gate\<close>




text \<open>
  Claim C6. An invocation in a guild channel other than the one configured in the guild's
  settings is denied silently: the invocation returns, the only change of the world is a
  debug line in the log, no message is sent to anybody, and the action body does not run.
\<close>

theorem wrong_channel_silent:
  assumes "guild msg = Some g" and "db w (guild_id g) = Some st"
      and "channel_id msg \<noteq> channel st"
  shows "call a msg w =
           (Inr (), w\<lparr>logged := logged w @
              [DebugWrongChannel (author_name (author msg)) (channel_name msg) (channel st)]\<rparr>)
         \<and> outbox (snd (call a msg w)) = outbox w"
  using assms
  by (simp add: call_def gate_def check_proceed_def load_settings_def get_by_id_def)

theorem wrong_channel_silent_witness:
  "call UserVoteCountAction ((member_msg ''hello everybody'')\<lparr>channel_id := 99, channel_name := ''general''\<rparr>) movie_world =
     (Inr (), movie_world\<lparr>logged := [DebugWrongChannel ''fae'' ''general'' 42]\<rparr>) \<and>
   outbox (snd (call UserVoteCountAction
      ((member_msg ''hello everybody'')\<lparr>channel_id := 99, channel_name := ''general''\<rparr>) movie_world)) = []"
proof -
  let ?m = "(member_msg ''hello everybody'')\<lparr>channel_id := 99, channel_name := ''general''\<rparr>"
  have g: "guild ?m = Some \<lparr>guild_id = 7, guild_name = ''Movie Club''\<rparr>"
    by (simp add: member_msg_sel)
  have d: "db movie_world (guild_id \<lparr>guild_id = 7, guild_name = ''Movie Club''\<rparr>) = Some movie_settings"
    by (simp add: movie_world_sel)
  have c: "channel_id ?m \<noteq> channel movie_settings"
    by (simp add: movie_settings_def)
  show ?thesis using wrong_channel_silent [OF g d c, of UserVoteCountAction]
    by (simp add: movie_world_sel member_msg_sel movie_settings_def)
qed




subsection \<open>An exception inside the check\<close>

text \<open>
  The \<^verbatim>\<open>except\<close> clause of line 64 sends the generic message and then goes on with
  line 68: the invocation is not denied.
\<close>

lemma gate_exception_falls_through:
  assumes "check_proceed a msg w = (Inl e, w1)"
      and "send_fault w1 MsgChannel (SendStr error_message) = None"
  shows "call a msg w =
           execute a msg (w1\<lparr>logged := logged w1 @ [LogError e],
                              outbox := outbox w1 @ [(MsgChannel, SendStr error_message)]\<rparr>)"
  using assms by (simp add: call_def gate_def send_def)

text \<open>
  Claim C1 says that an exception of the eligibility check is caught and logged, that the
  channel gets one generic error message, and that the invocation is then denied, with no
  exception leaving the entry point. Here the guild has no row in the server table: the
  check raises, the exception is logged and the generic message is sent, but line 68 loads
  the settings again outside of the \<^verbatim>\<open>try\<close>, and that exception leaves
  \<^verbatim>\<open>__call__\<close>.
\<close>

theorem missing_policy_propagates:
  "call UserVoteCountAction (admin_msg ''m!user_vote_count 5'') (movie_world\<lparr>db := Map.empty\<rparr>) =
     (Inl DoesNotExist,
      movie_world\<lparr>db := Map.empty, logged := [LogError DoesNotExist],
                   outbox := [(MsgChannel, SendStr error_message)]\<rparr>)"
  by (simp add: call_def gate_def execute_def check_proceed_def load_settings_def get_by_id_def
        send_def UserVoteCountAction_def admin_msg_def member_msg_def movie_world_def)

text \<open>
  When the second load succeeds, the body runs: the refusal of the admin check is lost on
  the way, the exception is caught, and the member without any admin right changes the
  setting.
\<close>

lemma non_admin_runs_admin_action:
  "fst (call UserVoteCountAction (member_msg ''m!user_vote_count 5'') lossy_world) = Inr () \<and>
   db (snd (call UserVoteCountAction (member_msg ''m!user_vote_count 5'') lossy_world)) 7 =
     Some (movie_settings\<lparr>num_votes_per_user := 5\<rparr>)"
  by (simp add: call_def gate_def execute_def check_proceed_def load_settings_def get_by_id_def
        send_def UserVoteCountAction_def vote_count_request_5 lossy_world_def movie_world_def movie_settings_def
        run_action_def log_running_def also_delete_def deliver_def send_args_def send_to_def
        error_message_def member_msg_sel)

subsection \<open>The reply protocol\<close>

text \<open>
  Claim C4. When the gate has let the invocation pass and the action returns a pair
  \<open>(target, payload)\<close>, the envelope makes exactly one send on \<open>target\<close> after the
  action, chosen by the type of the payload: a string \<open>s\<close> is sent as it is
  (\<open>SendStr s\<close>), a tuple \<open>xs\<close> is spread as positional arguments (\<open>SendPos xs\<close>),
  a dictionary \<open>kv\<close> is spread as keyword options (\<open>SendKw kv\<close>). The platform is
  taken to accept that send. An action returning \<open>(channel, "hello")\<close> gives the one
  call \<open>send("hello")\<close> on the channel.
\<close>

theorem reply_one_send:
  assumes "fst (check_proceed a msg w) = Inr True"
      and "action a msg (log_running a msg w) = (Inr (PTuple [PSendable t, args]), w2)"
      and "(args = PStr s \<and> c = SendStr s) \<or> (args = PTuple xs \<and> c = SendPos xs) \<or>
           (args = PDict kv \<and> c = SendKw kv)"
      and "send_fault w2 t c = None"
  shows "fst (call a msg w) = Inr () \<and> outbox (snd (call a msg w)) = outbox w2 @ [(t, c)]"
proof -
  obtain st where
    c: "call a msg w =
     (case run_action a msg st (log_running a msg w) of
             (Inr _, w1) \<Rightarrow> (Inr (), w1)
           | (Inl (e, target, args), w1) \<Rightarrow> on_error msg e target args w1)"
    using call_passed[OF assms(1)] by blast
  have sa: "send_args args = Some c"
    using assms(3) by (auto simp: send_args_def)
  have "run_action a msg st (log_running a msg w) =
          (Inr (), (also_delete st args w2)\<lparr>outbox := outbox w2 @ [(t, c)]\<rparr>)"
    using assms(2,4) sa by (simp add: run_action_def deliver_def send_to_def send_def)
  then show ?thesis using c by simp
qed

theorem reply_one_send_witness:
  "outbox (snd (call (ReturnAction (PTuple [PSendable MsgChannel, PStr ''hello''])) (member_msg ''m!hi'') movie_world)) =
     [(MsgChannel, SendStr ''hello'')] \<and>
   fst (call (ReturnAction (PTuple [PSendable MsgChannel, PStr ''hello''])) (member_msg ''m!hi'') movie_world) = Inr () \<and>
   outbox (snd (call (ReturnAction (PTuple [PSendable MsgAuthor, PTuple [PStr ''hello'']])) (member_msg ''m!hi'') movie_world)) =
     [(MsgAuthor, SendPos [PStr ''hello''])] \<and>
   outbox (snd (call (ReturnAction (PTuple [PSendable MsgChannel,
       PDict [(''content'', PStr ''hello''), (''also_delete'', PTuple [PMessageRef 1])]])) (member_msg ''m!hi'') movie_world)) =
     [(MsgChannel, SendKw [(''content'', PStr ''hello''), (''also_delete'', PTuple [PMessageRef 1])])]"
proof -
  let ?m = "member_msg ''m!hi''"
  have g: "fst (check_proceed (ReturnAction rt) ?m movie_world) = Inr True" for rt
    using check_member_everybody [of _ _ "send_fault movie_world"] by simp
  have b: "action (ReturnAction (PTuple [PSendable t, p])) ?m
             (log_running (ReturnAction (PTuple [PSendable t, p])) ?m movie_world) =
           (Inr (PTuple [PSendable t, p]),
            log_running (ReturnAction (PTuple [PSendable t, p])) ?m movie_world)" for t p
    by (simp add: ReturnAction_def)
  have k: "send_fault (log_running a ?m movie_world) t c = None" for a t c
    by (simp add: log_running_def movie_world_def)
  have o: "outbox (log_running a ?m movie_world) = []" for a
    by (simp add: log_running_def movie_world_def)
  have s1: "(PStr ''hello'' = PStr ''hello'' \<and> SendStr ''hello'' = SendStr ''hello'') \<or>
            (PStr ''hello'' = PTuple [] \<and> SendStr ''hello'' = SendPos []) \<or>
            (PStr ''hello'' = PDict [] \<and> SendStr ''hello'' = SendKw [])" by simp
  have s2: "(PTuple [PStr ''hello''] = PStr [] \<and> SendPos [PStr ''hello''] = SendStr []) \<or>
            (PTuple [PStr ''hello''] = PTuple [PStr ''hello''] \<and>
             SendPos [PStr ''hello''] = SendPos [PStr ''hello'']) \<or>
            (PTuple [PStr ''hello''] = PDict [] \<and> SendPos [PStr ''hello''] = SendKw [])" by simp
  let ?kv = "[(''content'', PStr ''hello''), (''also_delete'', PTuple [PMessageRef 1])]"
  have s3: "(PDict ?kv = PStr [] \<and> SendKw ?kv = SendStr []) \<or>
            (PDict ?kv = PTuple [] \<and> SendKw ?kv = SendPos []) \<or>
            (PDict ?kv = PDict ?kv \<and> SendKw ?kv = SendKw ?kv)" by simp
  show ?thesis
    using reply_one_send [OF g b s1 k] reply_one_send [OF g b s2 k]
          reply_one_send [OF g b s3 k]
    by (simp add: o)
qed

text \<open>
  Claim C9. When the gate has let the invocation pass and the action returns a value that
  is not a tuple of two elements, the envelope logs the protocol error and sends nothing:
  the world after the action changes by that log line only.
\<close>

theorem not_a_pair_no_reply:
  assumes "fst (check_proceed a msg w) = Inr True"
      and "action a msg (log_running a msg w) = (Inr rt, w2)"
      and "\<nexists>target args. rt = PTuple [target, args]"
  shows "call a msg w = (Inr (), w2\<lparr>logged := logged w2 @ [LogErrorNotTuple]\<rparr>)"
proof -
  obtain st where st: "load_settings msg w = Inr st" and
    c: "call a msg w =
     (case run_action a msg st (log_running a msg w) of
             (Inr _, w1) \<Rightarrow> (Inr (), w1)
           | (Inl (e, target, args), w1) \<Rightarrow> on_error msg e target args w1)"
    using call_passed[OF assms(1)] by blast
  have "run_action a msg st (log_running a msg w) = (Inr (), w2\<lparr>logged := logged w2 @ [LogErrorNotTuple]\<rparr>)"
    using assms(2,3) by (auto simp: run_action_def split: pyval.splits list.splits)
  then show ?thesis using c by simp
qed

theorem not_a_pair_no_reply_witness:
  "call (ReturnAction PNone) (member_msg ''m!cancel_vote'') movie_world =
     (Inr (), movie_world\<lparr>logged := [LogInfoRunning ''reply'' ''Movie Club'' ''fae'', LogErrorNotTuple]\<rparr>)"
proof -
  let ?m = "member_msg ''m!cancel_vote''"
  let ?a = "ReturnAction PNone"
  have g: "fst (check_proceed ?a ?m movie_world) = Inr True"
    using check_member_everybody [of _ _ "send_fault movie_world"] by simp
  have b: "action ?a ?m (log_running ?a ?m movie_world) = (Inr PNone, log_running ?a ?m movie_world)"
    by (simp add: ReturnAction_def)
  have n: "\<nexists>target args. PNone = PTuple [target, args]" by simp
  show ?thesis using not_a_pair_no_reply [OF g b n]
    by (simp add: log_running_def movie_world_def member_msg_sel ReturnAction_def)
qed

subsection \<open>The error envelope\<close>

text \<open>
  Claim C3. The action returned \<open>(target, payload)\<close> and the platform refuses the send
  to the target with the code 50007. If the target is the author of the message, the same
  payload is sent once to the channel of the message instead; if it is somebody else, the
  channel gets once the notice that the bot cannot send the author a direct message. The
  channel is taken to accept that message.
\<close>

theorem cannot_dm_fallback:
  assumes "fst (check_proceed a msg w) = Inr True"
      and "action a msg (log_running a msg w) = (Inr (PTuple [PSendable t, args]), w2)"
      and "send_args args = Some c"
      and "send_fault w2 t c = Some (Forbidden 50007)"
      and "send_fault w2 MsgChannel
             (if t = MsgAuthor then c
              else SendStr (''I can't DM you '' @ author_name (author msg) @ ''!'')) = None"
  shows "fst (call a msg w) = Inr () \<and>
         outbox (snd (call a msg w)) =
           outbox w2 @
             [(MsgChannel,
               if t = MsgAuthor then c
               else SendStr (''I can't DM you '' @ author_name (author msg) @ ''!''))]"
proof -
  obtain st where
    c: "call a msg w =
     (case run_action a msg st (log_running a msg w) of
             (Inr _, w1) \<Rightarrow> (Inr (), w1)
           | (Inl (e, target, args), w1) \<Rightarrow> on_error msg e target args w1)"
    using call_passed[OF assms(1)] by blast
  have r: "run_action a msg st (log_running a msg w) =
          (Inl (Forbidden 50007, PSendable t, args), also_delete st args w2)"
    using assms(2,3,4) by (simp add: run_action_def deliver_def send_to_def send_def)
  show ?thesis
  proof (cases "t = MsgAuthor")
    case True
    then show ?thesis using c r assms(3,5)
      by (simp add: on_error_def deliver_def send_to_def send_def)
  next
    case False
    then show ?thesis using c r assms(5)
      by (simp add: on_error_def send_def)
  qed
qed

theorem cannot_dm_fallback_witness:
  "fst (call (ReturnAction (PTuple [PSendable MsgAuthor, PStr ''hello''])) (member_msg ''m!hi'') no_dm_world) = Inr () \<and>
   outbox (snd (call (ReturnAction (PTuple [PSendable MsgAuthor, PStr ''hello''])) (member_msg ''m!hi'') no_dm_world)) =
     [(MsgChannel, SendStr ''hello'')] \<and>
   outbox (snd (call (ReturnAction (PTuple [PSendable (OtherSendable 1), PStr ''hello''])) (member_msg ''m!hi'') no_dm_world)) =
     [(MsgChannel, SendStr ''I can't DM you fae!'')]"
proof -
  let ?m = "member_msg ''m!hi''"
  have g: "fst (check_proceed (ReturnAction rt) ?m no_dm_world) = Inr True" for rt
    by (simp add: no_dm_world_def check_member_everybody)
  have b: "action (ReturnAction (PTuple [PSendable t, PStr ''hello''])) ?m
             (log_running (ReturnAction (PTuple [PSendable t, PStr ''hello''])) ?m no_dm_world) =
           (Inr (PTuple [PSendable t, PStr ''hello'']),
            log_running (ReturnAction (PTuple [PSendable t, PStr ''hello''])) ?m no_dm_world)" for t
    by (simp add: ReturnAction_def)
  have s: "send_args (PStr ''hello'') = Some (SendStr ''hello'')"
    by (simp add: send_args_def)
  have r: "t \<noteq> MsgChannel \<Longrightarrow>
           send_fault (log_running a ?m no_dm_world) t c = Some (Forbidden 50007)" for a t c
    by (simp add: log_running_def no_dm_world_def)
  have k: "send_fault (log_running a ?m no_dm_world) MsgChannel c = None" for a c
    by (simp add: log_running_def no_dm_world_def)
  have o: "outbox (log_running a ?m no_dm_world) = []" for a
    by (simp add: log_running_def no_dm_world_def movie_world_def)
  show ?thesis
    using cannot_dm_fallback [OF g b s r k, of MsgAuthor]
          cannot_dm_fallback [OF g b s r k, of "OtherSendable 1"]
    by (simp add: o member_msg_sel)
qed

text \<open>
  Claim C2, as amended. When the gate has let the invocation pass and the action body raises
  an exception other than \<^verbatim>\<open>Forbidden\<close> with code 50007, the entry point logs the
  exception and sends the fixed generic message to the channel of the message; when the
  platform accepts that send, the channel has got exactly that one message after the body
  and no exception leaves the entry point.
\<close>

theorem action_fault_generic_notice:
  assumes "fst (check_proceed a msg w) = Inr True"
      and "action a msg (log_running a msg w) = (Inl e, w2)"
      and "e \<noteq> Forbidden 50007"
      and "send_fault w2 MsgChannel (SendStr error_message) = None"
  shows "call a msg w =
           (Inr (), w2\<lparr>logged := logged w2 @ [LogError e],
                       outbox := outbox w2 @ [(MsgChannel, SendStr error_message)]\<rparr>)"
proof -
  obtain st where
    c: "call a msg w =
     (case run_action a msg st (log_running a msg w) of
             (Inr _, w1) \<Rightarrow> (Inr (), w1)
           | (Inl (e, target, args), w1) \<Rightarrow> on_error msg e target args w1)"
    using call_passed[OF assms(1)] by blast
  have r: "run_action a msg st (log_running a msg w) = (Inl (e, PNone, PNone), w2)"
    using assms(2) by (simp add: run_action_def)
  show ?thesis using c r assms(3,4)
    by (cases e) (simp_all add: on_error_def send_def)
qed

theorem action_fault_generic_notice_witness:
  "fst (check_proceed UserVoteCountAction (admin_msg ''m!user_vote_count abc'') movie_world) = Inr True \<and>
   action UserVoteCountAction (admin_msg ''m!user_vote_count abc'')
     (log_running UserVoteCountAction (admin_msg ''m!user_vote_count abc'') movie_world) =
     (Inl ValueError, log_running UserVoteCountAction (admin_msg ''m!user_vote_count abc'') movie_world) \<and>
   ValueError \<noteq> Forbidden 50007 \<and>
   call UserVoteCountAction (admin_msg ''m!user_vote_count abc'') movie_world =
     (Inr (),
      movie_world\<lparr>logged := [LogInfoRunning ''user_vote_count'' ''Movie Club'' ''owner'',
                              LogError ValueError],
                   outbox := [(MsgChannel, SendStr error_message)]\<rparr>)"
proof -
  let ?m = "admin_msg ''m!user_vote_count abc''"
  let ?w2 = "log_running UserVoteCountAction ?m movie_world"
  have g: "fst (check_proceed UserVoteCountAction ?m movie_world) = Inr True"
    by (simp add: check_admin_vote_count)
  have b: "action UserVoteCountAction ?m ?w2 = (Inl ValueError, ?w2)"
    by (simp add: UserVoteCountAction_def user_vote_count_action_def get_message_data_def
          admin_msg_sel strip_def is_space_def py_int_def is_digit_def)
  have n: "ValueError \<noteq> Forbidden 50007" by simp
  have f: "send_fault ?w2 MsgChannel (SendStr error_message) = None"
    by (simp add: log_running_def movie_world_def)
  have "call UserVoteCountAction ?m movie_world =
     (Inr (),
      movie_world\<lparr>logged := [LogInfoRunning ''user_vote_count'' ''Movie Club'' ''owner'',
                              LogError ValueError],
                   outbox := [(MsgChannel, SendStr error_message)]\<rparr>)"
    using action_fault_generic_notice [OF g b n f]
    by (simp add: log_running_def movie_world_def admin_msg_sel UserVoteCountAction_def)
  with g b n show ?thesis by blast
qed

text \<open>
  Without the two conditions the statement of C2 fails. On a platform where the bot may not
  write to the channel, the gate passes, the body raises \<^verbatim>\<open>ValueError\<close> (the argument
  is no number), the send of line 115 raises, and that exception leaves the entry point with
  no message delivered. And when the check itself raised and the \<^verbatim>\<open>except\<close> clause of
  line 64 went on, the same failing body gives the channel the generic message twice.
\<close>

theorem action_fault_counterexample:
  "fst (check_proceed UserVoteCountAction (admin_msg ''m!user_vote_count abc'') muted_world) = Inr True \<and>
   fst (action UserVoteCountAction (admin_msg ''m!user_vote_count abc'')
          (log_running UserVoteCountAction (admin_msg ''m!user_vote_count abc'') muted_world)) =
     Inl ValueError \<and>
   fst (call UserVoteCountAction (admin_msg ''m!user_vote_count abc'') muted_world) =
     Inl (Forbidden 50013) \<and>
   outbox (snd (call UserVoteCountAction (admin_msg ''m!user_vote_count abc'') muted_world)) = [] \<and>
   fst (call UserVoteCountAction (member_msg ''m!user_vote_count abc'') lossy_world) = Inr () \<and>
   outbox (snd (call UserVoteCountAction (member_msg ''m!user_vote_count abc'') lossy_world)) =
     [(MsgChannel, SendStr error_message), (MsgChannel, SendStr error_message)]"
proof -
  have abc: "user_vote_count_action m w = (Inl ValueError, w)"
    if "content m = ''m!user_vote_count abc''" for m w
    using that
    by (simp add: user_vote_count_action_def get_message_data_def strip_def is_space_def
          py_int_def is_digit_def)
  have 1: "call UserVoteCountAction (admin_msg ''m!user_vote_count abc'') muted_world =
        (Inl (Forbidden 50013),
         muted_world\<lparr>logged := [LogInfoRunning ''user_vote_count'' ''Movie Club'' ''owner'',
                                 LogError ValueError]\<rparr>)"
    by (simp add: call_def gate_def execute_def check_proceed_def load_settings_def get_by_id_def
          send_def UserVoteCountAction_def abc muted_world_def movie_world_def movie_settings_def
          run_action_def log_running_def on_error_def admin_msg_sel)
  have 2: "call UserVoteCountAction (member_msg ''m!user_vote_count abc'') lossy_world =
        (Inr (),
         lossy_world\<lparr>logged := [DebugNotAdmin ''fae'', LogError (OtherException ''HTTPException''),
                                 LogInfoRunning ''user_vote_count'' ''Movie Club'' ''fae'',
                                 LogError ValueError],
                      outbox := [(MsgChannel, SendStr error_message),
                                 (MsgChannel, SendStr error_message)]\<rparr>)"
    by (simp add: call_def gate_def execute_def check_proceed_def load_settings_def get_by_id_def
          send_def UserVoteCountAction_def abc lossy_world_def movie_world_def movie_settings_def
          run_action_def log_running_def on_error_def member_msg_sel error_message_def)
  have 3: "fst (check_proceed UserVoteCountAction (admin_msg ''m!user_vote_count abc'') muted_world) = Inr True"
    by (simp add: check_proceed_def load_settings_def get_by_id_def
          UserVoteCountAction_def muted_world_def movie_world_def movie_settings_def admin_msg_sel)
  have 4: "fst (action UserVoteCountAction (admin_msg ''m!user_vote_count abc'')
          (log_running UserVoteCountAction (admin_msg ''m!user_vote_count abc'') muted_world)) =
     Inl ValueError"
    by (simp add: UserVoteCountAction_def abc admin_msg_sel)
  show ?thesis using 1 2 3 4 by (simp add: muted_world_def movie_world_def lossy_world_def)
qed

text \<open>
  In general: the sends of the \<^verbatim>\<open>except\<close> clauses are not guarded themselves, and
  what the platform raises on the generic message leaves the entry point.
\<close>

lemma notice_refused_propagates:
  assumes "fst (check_proceed a msg w) = Inr True"
      and "action a msg (log_running a msg w) = (Inl e, w2)"
      and "e \<noteq> Forbidden 50007"
      and "send_fault w2 MsgChannel (SendStr error_message) = Some e'"
  shows "call a msg w = (Inl e', w2\<lparr>logged := logged w2 @ [LogError e]\<rparr>)"
proof -
  obtain st where
    c: "call a msg w =
     (case run_action a msg st (log_running a msg w) of
             (Inr _, w1) \<Rightarrow> (Inr (), w1)
           | (Inl (e, target, args), w1) \<Rightarrow> on_error msg e target args w1)"
    using call_passed[OF assms(1)] by blast
  have r: "run_action a msg st (log_running a msg w) = (Inl (e, PNone, PNone), w2)"
    using assms(2) by (simp add: run_action_def)
  show ?thesis using c r assms(3,4)
    by (cases e) (simp_all add: on_error_def send_def)
qed

subsection \<open>Message data\<close>

text \<open>
  Claim C8. \<^verbatim>\<open>get_message_data\<close> with one expected part gives \<open>"Some Movie"\<close> for
  the text \<open>"m!suggest   Some   Movie"\<close>, the runs of spaces collapsed; and for a
  message that is only the command token (after stripping, no space is left in it) it
  gives the empty string and raises nothing.
\<close>

theorem get_message_data_one_part:
  "get_message_data (msg\<lparr>content := ''m!suggest   Some   Movie''\<rparr>) 1 = PStr ''Some Movie'' \<and>
   (CHR '' '' \<notin> set (strip (content msg)) \<longrightarrow> get_message_data msg 1 = PStr '''')"
proof -
  have "get_message_data (msg\<lparr>content := ''m!suggest   Some   Movie''\<rparr>) 1 = PStr ''Some Movie''"
    by (simp add: get_message_data_def strip_def is_space_def)
  moreover have "CHR '' '' \<notin> set (strip (content msg)) \<longrightarrow> get_message_data msg 1 = PStr ''''"
    by (simp add: get_message_data_def split_sep_no_sep)
  ultimately show ?thesis by blast
qed

theorem get_message_data_one_part_witness:
  "CHR '' '' \<notin> set (strip (content (dm_msg ''m!suggest''))) \<and>
   get_message_data (dm_msg ''m!suggest'') 1 = PStr ''''"
proof -
  have h: "CHR '' '' \<notin> set (strip (content (dm_msg ''m!suggest'')))"
    by (simp add: dm_msg_sel strip_def is_space_def)
  then show ?thesis using get_message_data_one_part [of "dm_msg ''m!suggest''"] by blast
qed

subsection \<open>The action \<^verbatim>\<open>user_vote_count\<close>\<close>

text \<open>
  Claim C10. \<^verbatim>\<open>user_vote_count\<close> never lowers the stored \<^verbatim>\<open>num_votes_per_user\<close> of
  any server. The table is written only when the requested number is at least 1 and at
  least the stored one, and then that row gets the requested number; when the requested
  number is below 1 or below the stored one, the action returns the channel with a text
  that begins with "Failed" and leaves the world as it was.
\<close>

theorem vote_count_never_decreases:
  assumes "user_vote_count_action msg w = (r, w')"
  shows "(\<forall>gid row. db w gid = Some row \<longrightarrow>
            (\<exists>row'. db w' gid = Some row' \<and> num_votes_per_user row \<le> num_votes_per_user row'))
       \<and> (db w' \<noteq> db w \<longrightarrow>
            (\<exists>s n g row. get_message_data msg 1 = PStr s \<and> py_int s = Inr n \<and>
               guild msg = Some g \<and> db w (guild_id g) = Some row \<and>
               1 \<le> n \<and> num_votes_per_user row \<le> n \<and>
               db w' = (db w)(guild_id g \<mapsto> row\<lparr>num_votes_per_user := n\<rparr>)))
       \<and> (\<forall>s n. get_message_data msg 1 = PStr s \<and> py_int s = Inr n \<and>
               (n < 1 \<or> (\<exists>g row. guild msg = Some g \<and> db w (guild_id g) = Some row \<and>
                          n < num_votes_per_user row)) \<longrightarrow>
               w' = w \<and> (\<exists>text. r = Inr (PTuple [PSendable MsgChannel, PStr (''Failed'' @ text)])))"
  using assms
  by (auto simp: user_vote_count_action_def get_by_id_def
           split: pyval.splits sum.splits if_splits option.splits)

theorem vote_count_never_decreases_witness:
  "user_vote_count_action (member_msg ''m!user_vote_count 5'') movie_world =
     (Inr (PTuple [PSendable MsgChannel, PStr ''Number of votes per user updated to 5'']),
      movie_world\<lparr>db := [7 \<mapsto> movie_settings\<lparr>num_votes_per_user := 5\<rparr>]\<rparr>) \<and>
   db movie_world 7 = Some movie_settings \<and>
   (\<exists>row'. db (movie_world\<lparr>db := [7 \<mapsto> movie_settings\<lparr>num_votes_per_user := 5\<rparr>]\<rparr>) 7 = Some row' \<and>
           num_votes_per_user movie_settings \<le> num_votes_per_user row')"
proof -
  have h: "user_vote_count_action (member_msg ''m!user_vote_count 5'') movie_world =
     (Inr (PTuple [PSendable MsgChannel, PStr ''Number of votes per user updated to 5'']),
      movie_world\<lparr>db := [7 \<mapsto> movie_settings\<lparr>num_votes_per_user := 5\<rparr>]\<rparr>)"
    by (simp add: vote_count_request_5 movie_world_def movie_settings_def)
  have d: "db movie_world 7 = Some movie_settings"
    by (simp add: movie_world_def)
  from vote_count_never_decreases [OF h] have
    "\<forall>gid row. db movie_world gid = Some row \<longrightarrow>
       (\<exists>row'. db (movie_world\<lparr>db := [7 \<mapsto> movie_settings\<lparr>num_votes_per_user := 5\<rparr>]\<rparr>) gid = Some row' \<and>
               num_votes_per_user row \<le> num_votes_per_user row')"
    by blast
  with d have
    "\<exists>row'. db (movie_world\<lparr>db := [7 \<mapsto> movie_settings\<lparr>num_votes_per_user := 5\<rparr>]\<rparr>) 7 = Some row' \<and>
            num_votes_per_user movie_settings \<le> num_votes_per_user row'"
    by blast
  with h d show ?thesis by blast
qed

end
